theory Spec2Isabelle
  imports Main "HOL-Library.Char_ord"
begin

section \<open>Data of the libraries the program reads\<close>

text \<open>
  gobincache is one Go function, \<open>requiresInstall\<close>, with two helpers. It reads
  \<^verbatim>\<open>go.mod\<close> with \<^verbatim>\<open>golang.org/x/mod/modfile\<close>, reads the build information
  of a binary with \<^verbatim>\<open>debug/buildinfo\<close> and compares the two. The structs of these
  packages are records here, with the fields that hold the directives and the build data
  (syntax trees and build settings are left out: the program never reads them). Field
  names carry the struct's name where two structs share a field name.
\<close>

text \<open>\<^verbatim>\<open>module.Version\<close>: a module path and a version string.\<close>

record module_Version =
  Version_Path :: string
  Version_Version :: string

text \<open>\<^verbatim>\<open>modfile.Require\<close>, \<^verbatim>\<open>modfile.Exclude\<close>, \<^verbatim>\<open>modfile.Replace\<close>
  and \<^verbatim>\<open>modfile.Go\<close>: one directive of a go.mod each.\<close>

record Require =
  Mod :: module_Version
  Indirect :: bool

record Exclude =
  Exclude_Mod :: module_Version

record Replace =
  Old :: module_Version
  New :: module_Version

record Go =
  Go_Version :: string

text \<open>
  \<^verbatim>\<open>modfile.File\<close>. The field \<^verbatim>\<open>Go\<close> is a pointer (\<^verbatim>\<open>*modfile.Go\<close>): it is
  \<^verbatim>\<open>nil\<close>, here \<open>None\<close>, for a go.mod without a \<^verbatim>\<open>go\<close> directive.
\<close>

record File =
  File_Go :: "Go option"
  File_Require :: "Require list"
  File_Exclude :: "Exclude list"
  File_Replace :: "Replace list"

text \<open>\<^verbatim>\<open>debug.Module\<close> and \<^verbatim>\<open>debug.BuildInfo\<close>: what a Go binary records about
  its own build.\<close>

record debug_Module =
  Module_Path :: string
  Module_Version :: string
  Module_Sum :: string

record BuildInfo =
  GoVersion :: string
  BuildInfo_Path :: string
  Main :: debug_Module
  Deps :: "debug_Module list"

section \<open>Errors, results and the outside world\<close>

text \<open>
  An error of the file system or of \<^verbatim>\<open>buildinfo.ReadFile\<close>. The program asks one
  question of it, \<^verbatim>\<open>errors.Is(err, os.ErrNotExist)\<close>.
\<close>

datatype io_error = ErrNotExist | ErrOther string

fun errors_Is_ErrNotExist :: "io_error \<Rightarrow> bool" where
  "errors_Is_ErrNotExist ErrNotExist = True"
| "errors_Is_ErrNotExist (ErrOther msg) = False"

text \<open>
  The errors \<open>requiresInstall\<close> returns, one constructor for each \<^verbatim>\<open>fmt.Errorf\<close>
  of the source, with the arguments of its format string.
\<close>

datatype error =
    ReadingModfile io_error
  | ParsingModfile string
  | ReadingBinaryBuildinfo string io_error
  | ParsingGoModGoVersion string
  | ParsingBinaryGoVersion string
  | ModuleNotFound string

text \<open>
  A Go function returning \<^verbatim>\<open>(T, error)\<close> returns a value with a \<^verbatim>\<open>nil\<close> error
  (\<open>Ok\<close>), returns an error (\<open>Err\<close>), or panics (\<open>Panic\<close>), which ends the process
  with a stack trace.
\<close>

datatype 'a result = Ok 'a | Err error | Panic

text \<open>
  What the program reads from outside: \<^verbatim>\<open>os.ReadFile\<close> (path to bytes),
  \<^verbatim>\<open>modfile.Parse\<close> (bytes to a file or a parse error) and
  \<^verbatim>\<open>buildinfo.ReadFile\<close> (path to build information). They are parameters of the
  model: every theorem holds whatever the file system holds and whatever the parser
  accepts.
\<close>

record world =
  os_ReadFile :: "string \<Rightarrow> io_error + string"
  modfile_Parse :: "string \<Rightarrow> string + File"
  buildinfo_ReadFile :: "string \<Rightarrow> io_error + BuildInfo"

text \<open>
  The two functions of \<^verbatim>\<open>golang.org/x/mod/semver\<close> the program calls. They are a
  parameter too; \<open>x_mod_semver\<close> below is the package as published.
\<close>

record semver =
  IsValid :: "string \<Rightarrow> bool"
  Compare :: "string \<Rightarrow> string \<Rightarrow> int"

section \<open>The package golang.org/x/mod/semver\<close>

text \<open>
  A transcription of the package's \<^verbatim>\<open>parse\<close>, \<^verbatim>\<open>IsValid\<close> and \<^verbatim>\<open>Compare\<close>,
  used to run the program on concrete versions. Strings are byte lists; Go's \<^verbatim>\<open><\<close> on
  strings is the bytewise lexicographic order.
\<close>

fun string_less :: "string \<Rightarrow> string \<Rightarrow> bool" where
  "string_less [] [] = False"
| "string_less [] (y # ys) = True"
| "string_less (x # xs) [] = False"
| "string_less (x # xs) (y # ys) = (x < y \<or> (x = y \<and> string_less xs ys))"

definition isDigit :: "char \<Rightarrow> bool" where
  "isDigit c = (CHR ''0'' \<le> c \<and> c \<le> CHR ''9'')"

definition isIdentChar :: "char \<Rightarrow> bool" where
  "isIdentChar c =
     (CHR ''A'' \<le> c \<and> c \<le> CHR ''Z'' \<or> CHR ''a'' \<le> c \<and> c \<le> CHR ''z''
      \<or> CHR ''0'' \<le> c \<and> c \<le> CHR ''9'' \<or> c = CHR ''-'')"

definition isBadNum :: "string \<Rightarrow> bool" where
  "isBadNum v =
     (let i = length (takeWhile isDigit v)
      in i = length v \<and> 1 < i \<and> hd v = CHR ''0'')"

definition isNum :: "string \<Rightarrow> bool" where
  "isNum v = (length (takeWhile isDigit v) = length v)"

text \<open>\<^verbatim>\<open>parseInt\<close> returns \<^verbatim>\<open>(t, rest, ok)\<close>; \<open>None\<close> is \<^verbatim>\<open>ok = false\<close>.\<close>

definition parseInt :: "string \<Rightarrow> (string \<times> string) option" where
  "parseInt v =
     (if v = [] then None
      else if \<not> isDigit (hd v) then None
      else
        let i = 1 + length (takeWhile isDigit (tl v))
        in if hd v = CHR ''0'' \<and> i \<noteq> 1 then None
           else Some (take i v, drop i v))"

text \<open>
  The loop of \<^verbatim>\<open>parsePrerelease\<close>: \<open>t\<close> is \<^verbatim>\<open>v[:i]\<close>, \<open>cur\<close> is
  \<^verbatim>\<open>v[start:i]\<close> and the third argument is \<^verbatim>\<open>v[i:]\<close>.
\<close>

fun parsePrerelease_loop :: "string \<Rightarrow> string \<Rightarrow> string \<Rightarrow> (string \<times> string) option" where
  "parsePrerelease_loop t cur [] =
     (if cur = [] \<or> isBadNum cur then None else Some (t, []))"
| "parsePrerelease_loop t cur (c # cs) =
     (if c = CHR ''+'' then
        (if cur = [] \<or> isBadNum cur then None else Some (t, c # cs))
      else if \<not> isIdentChar c \<and> c \<noteq> CHR ''.'' then None
      else if c = CHR ''.'' then
        (if cur = [] \<or> isBadNum cur then None
         else parsePrerelease_loop (t @ [c]) [] cs)
      else parsePrerelease_loop (t @ [c]) (cur @ [c]) cs)"

definition parsePrerelease :: "string \<Rightarrow> (string \<times> string) option" where
  "parsePrerelease v =
     (if v = [] \<or> hd v \<noteq> CHR ''-'' then None
      else parsePrerelease_loop [hd v] [] (tl v))"

fun parseBuild_loop :: "string \<Rightarrow> string \<Rightarrow> string \<Rightarrow> (string \<times> string) option" where
  "parseBuild_loop t cur [] = (if cur = [] then None else Some (t, []))"
| "parseBuild_loop t cur (c # cs) =
     (if \<not> isIdentChar c \<and> c \<noteq> CHR ''.'' then None
      else if c = CHR ''.'' then
        (if cur = [] then None else parseBuild_loop (t @ [c]) [] cs)
      else parseBuild_loop (t @ [c]) (cur @ [c]) cs)"

definition parseBuild :: "string \<Rightarrow> (string \<times> string) option" where
  "parseBuild v =
     (if v = [] \<or> hd v \<noteq> CHR ''+'' then None
      else parseBuild_loop [hd v] [] (tl v))"

record parsed =
  major :: string
  minor :: string
  patch :: string
  short :: string
  prerelease :: string
  build :: string

text \<open>The end of \<^verbatim>\<open>parse\<close>, after the patch number: prerelease, build, nothing more.\<close>

definition parse_suffix :: "string \<Rightarrow> string \<Rightarrow> string \<Rightarrow> string \<Rightarrow> parsed option" where
  "parse_suffix ma mi pa v =
     (case (if v \<noteq> [] \<and> hd v = CHR ''-'' then parsePrerelease v else Some ([], v)) of
        None \<Rightarrow> None
      | Some (pre, v') \<Rightarrow>
          (case (if v' \<noteq> [] \<and> hd v' = CHR ''+'' then parseBuild v' else Some ([], v')) of
             None \<Rightarrow> None
           | Some (bld, v'') \<Rightarrow>
               if v'' \<noteq> [] then None
               else Some \<lparr>major = ma, minor = mi, patch = pa, short = [],
                          prerelease = pre, build = bld\<rparr>))"

definition parse :: "string \<Rightarrow> parsed option" where
  "parse v =
     (if v = [] \<or> hd v \<noteq> CHR ''v'' then None
      else
        (case parseInt (tl v) of
           None \<Rightarrow> None
         | Some (ma, v1) \<Rightarrow>
             if v1 = [] then
               Some \<lparr>major = ma, minor = ''0'', patch = ''0'', short = ''.0.0'',
                     prerelease = [], build = []\<rparr>
             else if hd v1 \<noteq> CHR ''.'' then None
             else
               (case parseInt (tl v1) of
                  None \<Rightarrow> None
                | Some (mi, v2) \<Rightarrow>
                    if v2 = [] then
                      Some \<lparr>major = ma, minor = mi, patch = ''0'', short = ''.0'',
                            prerelease = [], build = []\<rparr>
                    else if hd v2 \<noteq> CHR ''.'' then None
                    else
                      (case parseInt (tl v2) of
                         None \<Rightarrow> None
                       | Some (pa, v3) \<Rightarrow> parse_suffix ma mi pa v3))))"

definition semver_IsValid :: "string \<Rightarrow> bool" where
  "semver_IsValid v = (parse v \<noteq> None)"

definition compareInt :: "string \<Rightarrow> string \<Rightarrow> int" where
  "compareInt x y =
     (if x = y then 0
      else if length x < length y then -1
      else if length x > length y then 1
      else if string_less x y then -1
      else 1)"

text \<open>\<^verbatim>\<open>nextIdent\<close> cuts a string before its first dot.\<close>

definition nextIdent :: "string \<Rightarrow> string \<times> string" where
  "nextIdent x = (takeWhile (\<lambda>c. c \<noteq> CHR ''.'') x, dropWhile (\<lambda>c. c \<noteq> CHR ''.'') x)"

text \<open>How two different identifiers of a prerelease compare.\<close>

definition compareIdent :: "string \<Rightarrow> string \<Rightarrow> int" where
  "compareIdent dx dy =
     (let ix = isNum dx; iy = isNum dy
      in if ix \<noteq> iy then (if ix then -1 else 1)
         else if ix \<and> length dx < length dy then -1
         else if ix \<and> length dx > length dy then 1
         else if string_less dx dy then -1
         else 1)"

function comparePrerelease_loop :: "string \<Rightarrow> string \<Rightarrow> int" where
  "comparePrerelease_loop x y =
     (if x \<noteq> [] \<and> y \<noteq> [] then
        (if fst (nextIdent (tl x)) \<noteq> fst (nextIdent (tl y))
         then compareIdent (fst (nextIdent (tl x))) (fst (nextIdent (tl y)))
         else comparePrerelease_loop (snd (nextIdent (tl x))) (snd (nextIdent (tl y))))
      else if x = [] then -1 else 1)"
  by pat_completeness auto
termination
proof (relation "measure (\<lambda>(x, y). length x)")
  show "wf (measure (\<lambda>(x, y). length x))" by simp
next
  fix x y :: string
  assume "x \<noteq> [] \<and> y \<noteq> []"
  then have "length (dropWhile (\<lambda>c. c \<noteq> CHR ''.'') (tl x)) < length x"
    using length_dropWhile_le [of "\<lambda>c. c \<noteq> CHR ''.''" "tl x"] by (cases x) auto
  then show "((snd (nextIdent (tl x)), snd (nextIdent (tl y))), x, y)
               \<in> measure (\<lambda>(x, y). length x)"
    by (simp add: nextIdent_def)
qed

declare comparePrerelease_loop.simps [simp del]

definition comparePrerelease :: "string \<Rightarrow> string \<Rightarrow> int" where
  "comparePrerelease x y =
     (if x = y then 0
      else if x = [] then 1
      else if y = [] then -1
      else comparePrerelease_loop x y)"

definition semver_Compare :: "string \<Rightarrow> string \<Rightarrow> int" where
  "semver_Compare v w =
     (case (parse v, parse w) of
        (None, None) \<Rightarrow> 0
      | (None, Some pw) \<Rightarrow> -1
      | (Some pv, None) \<Rightarrow> 1
      | (Some pv, Some pw) \<Rightarrow>
          if compareInt (major pv) (major pw) \<noteq> 0 then compareInt (major pv) (major pw)
          else if compareInt (minor pv) (minor pw) \<noteq> 0 then compareInt (minor pv) (minor pw)
          else if compareInt (patch pv) (patch pw) \<noteq> 0 then compareInt (patch pv) (patch pw)
          else comparePrerelease (prerelease pv) (prerelease pw))"

definition x_mod_semver :: semver where
  "x_mod_semver = \<lparr>IsValid = semver_IsValid, Compare = semver_Compare\<rparr>"

section \<open>The program\<close>

text \<open>
  The repository holds three revisions of \<^verbatim>\<open>main.go\<close>. One
  (\<^verbatim>\<open>src/unnamed/part_000\<close>) checks the Go toolchain version before the module
  version; its functions keep their names here. \<^verbatim>\<open>src/main.go\<close> has no toolchain
  check and fails when the module is not in go.mod (\<open>main_requiresInstall\<close>); the third
  (\<^verbatim>\<open>src/unnamed/part_001\<close>) searches go.mod with a loop of its own
  (\<open>part_001_requiresInstall\<close>).
\<close>

text \<open>\<^verbatim>\<open>strings.TrimPrefix(s, prefix)\<close>: \<open>s\<close> without the leading \<open>prefix\<close>, or
  \<open>s\<close> itself when it does not start with \<open>prefix\<close>.\<close>

definition strings_TrimPrefix :: "string \<Rightarrow> string \<Rightarrow> string" where
  "strings_TrimPrefix s prefix =
     (if take (length prefix) s = prefix then drop (length prefix) s else s)"

text \<open>
  The two local variables of \<open>needsUpdateForGo\<close>, as functions of the strings they
  are made from: \<^verbatim>\<open>"v" + gomod.Go.Version\<close> and
  \<^verbatim>\<open>"v" + strings.TrimPrefix(info.GoVersion, "go")\<close>.
\<close>

definition modGoVersion :: "string \<Rightarrow> string" where
  "modGoVersion goVersion = ''v'' @ goVersion"

definition binGoVersion :: "string \<Rightarrow> string" where
  "binGoVersion goVersion = ''v'' @ strings_TrimPrefix goVersion ''go''"

text \<open>
  \<open>needsUpdateForGo\<close> (part_000, lines 122 to 138). \<^verbatim>\<open>gomod.Go.Version\<close>
  dereferences \<^verbatim>\<open>gomod.Go\<close>: a \<^verbatim>\<open>nil\<close> pointer there is a panic.
\<close>

definition needsUpdateForGo :: "semver \<Rightarrow> File \<Rightarrow> BuildInfo \<Rightarrow> bool result" where
  "needsUpdateForGo sv gomod info =
     (case File_Go gomod of
        None \<Rightarrow> Panic
      | Some g \<Rightarrow>
          if \<not> IsValid sv (modGoVersion (Go_Version g)) then
            Err (ParsingGoModGoVersion (modGoVersion (Go_Version g)))
          else if \<not> IsValid sv (binGoVersion (GoVersion info)) then
            Err (ParsingBinaryGoVersion (binGoVersion (GoVersion info)))
          else if Compare sv (binGoVersion (GoVersion info)) (modGoVersion (Go_Version g)) = -1
          then Ok True
          else Ok False)"

text \<open>
  \<open>versionFromGoMod\<close> (part_000, lines 140 to 148; the same text in main.go, lines
  118 to 126): the loop returns at the first requirement whose path is the binary's.
  \<open>None\<close> is the \<^verbatim>\<open>nil\<close> pointer.
\<close>

fun versionFromGoMod_loop :: "Require list \<Rightarrow> debug_Module \<Rightarrow> module_Version option" where
  "versionFromGoMod_loop [] binaryModule = None"
| "versionFromGoMod_loop (required # rest) binaryModule =
     (if Version_Path (Mod required) = Module_Path binaryModule then Some (Mod required)
      else versionFromGoMod_loop rest binaryModule)"

definition versionFromGoMod :: "File \<Rightarrow> debug_Module \<Rightarrow> module_Version option" where
  "versionFromGoMod gomod binaryModule = versionFromGoMod_loop (File_Require gomod) binaryModule"

text \<open>\<open>requiresInstall\<close> (part_000, lines 83 to 120).\<close>

definition requiresInstall :: "semver \<Rightarrow> world \<Rightarrow> string \<Rightarrow> bool result" where
  "requiresInstall sv w binPath =
     (case os_ReadFile w ''go.mod'' of
        Inl err \<Rightarrow> Err (ReadingModfile err)
      | Inr b \<Rightarrow>
          (case modfile_Parse w b of
             Inl err \<Rightarrow> Err (ParsingModfile err)
           | Inr gomod \<Rightarrow>
               (case buildinfo_ReadFile w binPath of
                  Inl err \<Rightarrow>
                    if errors_Is_ErrNotExist err then Ok True
                    else Err (ReadingBinaryBuildinfo binPath err)
                | Inr info \<Rightarrow>
                    (case needsUpdateForGo sv gomod info of
                       Panic \<Rightarrow> Panic
                     | Err err \<Rightarrow> Err err
                     | Ok goUpdate \<Rightarrow>
                         if goUpdate then Ok True
                         else
                           (case versionFromGoMod gomod (Main info) of
                              None \<Rightarrow> Ok True
                            | Some modv \<Rightarrow>
                                Ok (Module_Version (Main info) \<noteq> Version_Version modv))))))"

text \<open>\<open>moduleFromBinary\<close> and \<open>requiresInstall\<close> of main.go (lines 81 to 116).\<close>

definition moduleFromBinary :: "world \<Rightarrow> string \<Rightarrow> io_error + debug_Module" where
  "moduleFromBinary w path =
     (case buildinfo_ReadFile w path of
        Inl err \<Rightarrow> Inl err
      | Inr info \<Rightarrow> Inr (Main info))"

definition main_requiresInstall :: "world \<Rightarrow> string \<Rightarrow> bool result" where
  "main_requiresInstall w binPath =
     (case os_ReadFile w ''go.mod'' of
        Inl err \<Rightarrow> Err (ReadingModfile err)
      | Inr b \<Rightarrow>
          (case modfile_Parse w b of
             Inl err \<Rightarrow> Err (ParsingModfile err)
           | Inr gomod \<Rightarrow>
               (case moduleFromBinary w binPath of
                  Inl err \<Rightarrow>
                    if errors_Is_ErrNotExist err then Ok True
                    else Err (ReadingBinaryBuildinfo binPath err)
                | Inr bin \<Rightarrow>
                    (case versionFromGoMod gomod bin of
                       None \<Rightarrow> Err (ModuleNotFound (Module_Path bin))
                     | Some modv \<Rightarrow> Ok (Module_Version bin \<noteq> Version_Version modv)))))"

text \<open>
  \<open>requiresInstall\<close> of part_001 (lines 81 to 116). Its loop (lines 103 to 110) runs
  over the whole list and assigns \<^verbatim>\<open>mod\<close> (here \<open>modv\<close>) at every requirement whose path is the
  binary's, so the last one stays. The \<^verbatim>\<open>context.Context\<close> argument is not used.
\<close>

fun part_001_loop :: "module_Version option \<Rightarrow> Require list \<Rightarrow> debug_Module \<Rightarrow> module_Version option" where
  "part_001_loop modv [] bin = modv"
| "part_001_loop modv (r # rest) bin =
     (if Version_Path (Mod r) \<noteq> Module_Path bin then part_001_loop modv rest bin
      else part_001_loop (Some (Mod r)) rest bin)"

definition part_001_requiresInstall :: "world \<Rightarrow> string \<Rightarrow> bool result" where
  "part_001_requiresInstall w binPath =
     (case os_ReadFile w ''go.mod'' of
        Inl err \<Rightarrow> Err (ReadingModfile err)
      | Inr b \<Rightarrow>
          (case modfile_Parse w b of
             Inl err \<Rightarrow> Err (ParsingModfile err)
           | Inr gomod \<Rightarrow>
               (case buildinfo_ReadFile w binPath of
                  Inl err \<Rightarrow>
                    if errors_Is_ErrNotExist err then Ok True
                    else Err (ReadingBinaryBuildinfo binPath err)
                | Inr info \<Rightarrow>
                    (case part_001_loop None (File_Require gomod) (Main info) of
                       None \<Rightarrow> Err (ModuleNotFound (Module_Path (Main info)))
                     | Some modv \<Rightarrow>
                         Ok (Module_Version (Main info) \<noteq> Version_Version modv)))))"

section \<open>Concrete manifests, binaries and worlds\<close>

text \<open>
  The scenarios of the specification: a go.mod requiring Go 1.21 and
  \<^verbatim>\<open>example.com/tool v1.2.0\<close>, and binaries built from that module.
\<close>

definition tool_require :: "string \<Rightarrow> Require" where
  "tool_require ver =
     \<lparr>Mod = \<lparr>Version_Path = ''example.com/tool'', Version_Version = ver\<rparr>, Indirect = False\<rparr>"

definition gomod_1_21 :: File where
  "gomod_1_21 =
     \<lparr>File_Go = Some \<lparr>Go_Version = ''1.21''\<rparr>, File_Require = [tool_require ''v1.2.0''],
      File_Exclude = [], File_Replace = []\<rparr>"

definition binary_of :: "string \<Rightarrow> string \<Rightarrow> string \<Rightarrow> BuildInfo" where
  "binary_of goVersion path ver =
     \<lparr>GoVersion = goVersion, BuildInfo_Path = path,
      Main = \<lparr>Module_Path = path, Module_Version = ver, Module_Sum = []\<rparr>, Deps = []\<rparr>"

text \<open>
  A world whose go.mod parses to \<open>gomod\<close> and whose only binary, at \<^verbatim>\<open>bin/tool\<close>,
  is \<open>bin\<close>, or is absent when \<open>bin\<close> is \<open>None\<close>. The bytes of go.mod stand for
  themselves.
\<close>

definition world_of :: "File \<Rightarrow> BuildInfo option \<Rightarrow> world" where
  "world_of gomod bin =
     \<lparr>os_ReadFile = (\<lambda>path. if path = ''go.mod'' then Inr ''go.mod bytes'' else Inl ErrNotExist),
      modfile_Parse = (\<lambda>b. Inr gomod),
      buildinfo_ReadFile =
        (\<lambda>path. case bin of
                  None \<Rightarrow> Inl ErrNotExist
                | Some info \<Rightarrow> if path = ''bin/tool'' then Inr info else Inl ErrNotExist)\<rparr>"

text \<open>More manifests: one that lists the tool twice, one without a \<^verbatim>\<open>go\<close> directive,
  one whose Go version is a release candidate, and one that names a module only in a
  \<^verbatim>\<open>replace\<close> directive.\<close>

definition gomod_duplicate :: File where
  "gomod_duplicate =
     \<lparr>File_Go = Some \<lparr>Go_Version = ''1.21''\<rparr>,
      File_Require = [tool_require ''v1.0.0'', tool_require ''v1.1.0''],
      File_Exclude = [], File_Replace = []\<rparr>"

definition gomod_without_go :: File where
  "gomod_without_go =
     \<lparr>File_Go = None, File_Require = [tool_require ''v1.2.0''],
      File_Exclude = [], File_Replace = []\<rparr>"

definition gomod_rc :: File where
  "gomod_rc =
     \<lparr>File_Go = Some \<lparr>Go_Version = ''1.21rc1''\<rparr>, File_Require = [tool_require ''v1.2.0''],
      File_Exclude = [], File_Replace = []\<rparr>"

definition gomod_replace :: File where
  "gomod_replace =
     \<lparr>File_Go = Some \<lparr>Go_Version = ''1.21''\<rparr>, File_Require = [tool_require ''v1.2.0''],
      File_Exclude = [],
      File_Replace =
        [\<lparr>Old = \<lparr>Version_Path = ''example.com/renamed-tool'', Version_Version = []\<rparr>,
          New = \<lparr>Version_Path = ''example.com/tool'', Version_Version = ''v1.2.0''\<rparr>\<rparr>]\<rparr>"

text \<open>A world whose go.mod is there and does not parse.\<close>

definition world_malformed :: "BuildInfo option \<Rightarrow> world" where
  "world_malformed bin =
     (world_of gomod_1_21 bin)\<lparr>modfile_Parse := (\<lambda>b. Inl ''unknown directive'')\<rparr>"

text \<open>The manifest \<open>gomod\<close> with its \<^verbatim>\<open>replace\<close> and \<^verbatim>\<open>exclude\<close> directives
  deleted, and a world that parses go.mod to a given file.\<close>

definition require_only :: "File \<Rightarrow> File" where
  "require_only gomod = gomod\<lparr>File_Exclude := [], File_Replace := []\<rparr>"

definition parsing_to :: "world \<Rightarrow> File \<Rightarrow> world" where
  "parsing_to w gomod = w\<lparr>modfile_Parse := (\<lambda>b. Inr gomod)\<rparr>"

section \<open>Lemmas on the two searches and on the semver package\<close>

lemma versionFromGoMod_loop_Some:
  "versionFromGoMod_loop rs bm = Some m \<Longrightarrow>
     m \<in> Mod ` set rs \<and> Version_Path m = Module_Path bm"
  by (induction rs) (auto split: if_splits)

lemma versionFromGoMod_loop_None:
  "(versionFromGoMod_loop rs bm = None) =
     (\<forall>r\<in>set rs. Version_Path (Mod r) \<noteq> Module_Path bm)"
  by (induction rs) auto

lemma versionFromGoMod_loop_first:
  "\<forall>q\<in>set pre. Version_Path (Mod q) \<noteq> Module_Path bm \<Longrightarrow>
   Version_Path (Mod r) = Module_Path bm \<Longrightarrow>
   versionFromGoMod_loop (pre @ r # post) bm = Some (Mod r)"
  by (induction pre) auto

lemma part_001_loop_no_match:
  "\<forall>q\<in>set rs. Version_Path (Mod q) \<noteq> Module_Path bm \<Longrightarrow> part_001_loop acc rs bm = acc"
  by (induction rs arbitrary: acc) auto

lemma part_001_loop_last:
  "\<forall>q\<in>set post. Version_Path (Mod q) \<noteq> Module_Path bm \<Longrightarrow>
   Version_Path (Mod r) = Module_Path bm \<Longrightarrow>
   part_001_loop acc (pre @ r # post) bm = Some (Mod r)"
  by (induction pre arbitrary: acc) (auto simp: part_001_loop_no_match)

lemma part_001_loop_Some:
  "part_001_loop acc rs bm = Some m \<Longrightarrow>
     acc = Some m \<or> (m \<in> Mod ` set rs \<and> Version_Path m = Module_Path bm)"
proof (induction rs arbitrary: acc)
  case Nil
  then show ?case by simp
next
  case (Cons r rs)
  show ?case
  proof (cases "Version_Path (Mod r) = Module_Path bm")
    case True
    with Cons.prems have "part_001_loop (Some (Mod r)) rs bm = Some m" by simp
    from Cons.IH [OF this] True show ?thesis by auto
  next
    case False
    with Cons.prems have "part_001_loop acc rs bm = Some m" by simp
    from Cons.IH [OF this] show ?thesis by auto
  qed
qed

lemma compareInt_refl: "compareInt x x = 0"
  by (simp add: compareInt_def)

lemma comparePrerelease_refl: "comparePrerelease x x = 0"
  by (simp add: comparePrerelease_def)

lemma semver_Compare_refl: "semver_Compare v v = 0"
  by (cases "parse v") (simp_all add: semver_Compare_def compareInt_refl comparePrerelease_refl)

lemma binGoVersion_go: "binGoVersion (''go'' @ s) = modGoVersion s"
  by (simp add: binGoVersion_def modGoVersion_def strings_TrimPrefix_def)

lemma binGoVersion_go_Cons: "binGoVersion (CHR ''g'' # CHR ''o'' # s) = modGoVersion s"
  using binGoVersion_go [of s] by simp

text \<open>
  The revisions without a toolchain check fail when no requirement has the binary's path: the error
  \<^verbatim>\<open>module (...) not found in modfile\<close>.
\<close>

lemma plain_revisions_fail_when_not_found:
  assumes "os_ReadFile w ''go.mod'' = Inr b"
    and "modfile_Parse w b = Inr gomod"
    and "buildinfo_ReadFile w binPath = Inr info"
    and "\<forall>r\<in>set (File_Require gomod). Version_Path (Mod r) \<noteq> Module_Path (Main info)"
  shows "main_requiresInstall w binPath = Err (ModuleNotFound (Module_Path (Main info)))"
    and "part_001_requiresInstall w binPath = Err (ModuleNotFound (Module_Path (Main info)))"
proof -
  from assms(4) have "versionFromGoMod gomod (Main info) = None"
    by (simp add: versionFromGoMod_def versionFromGoMod_loop_None)
  with assms(1-3)
  show "main_requiresInstall w binPath = Err (ModuleNotFound (Module_Path (Main info)))"
    by (simp add: main_requiresInstall_def moduleFromBinary_def)
  from assms(4) have "part_001_loop None (File_Require gomod) (Main info) = None"
    by (rule part_001_loop_no_match)
  with assms(1-3)
  show "part_001_requiresInstall w binPath = Err (ModuleNotFound (Module_Path (Main info)))"
    by (simp add: part_001_requiresInstall_def)
qed

text \<open>
  With a binary in place, a manifest without a \<^verbatim>\<open>go\<close> directive makes part_000
  dereference a \<^verbatim>\<open>nil\<close> pointer.
\<close>

lemma requiresInstall_panics_without_go:
  assumes "os_ReadFile w ''go.mod'' = Inr b"
    and "modfile_Parse w b = Inr gomod"
    and "buildinfo_ReadFile w binPath = Inr info"
    and "File_Go gomod = None"
  shows "requiresInstall sv w binPath = Panic"
  using assms by (simp add: requiresInstall_def needsUpdateForGo_def)

text \<open>The definitions that run the semver package and the concrete worlds.\<close>

lemmas run_semver =
  x_mod_semver_def semver_IsValid_def semver_Compare_def parse_def parseInt_def isDigit_def
  compareInt_def comparePrerelease_def modGoVersion_def binGoVersion_def
  strings_TrimPrefix_def

lemmas run_world =
  world_of_def binary_of_def tool_require_def gomod_1_21_def

section \<open>The claims\<close>

text \<open>
  C1. When go.mod reads and parses and there is no file at the binary's path
  (\<^verbatim>\<open>buildinfo.ReadFile\<close> fails with an error that is \<^verbatim>\<open>os.ErrNotExist\<close>),
  \<open>requiresInstall\<close> returns \<^verbatim>\<open>(true, nil)\<close>, in each of the three revisions. The
  manifest and the semver functions are arbitrary, so neither the toolchain check nor the
  module search has a say in the result.
\<close>

theorem missing_binary_requires_install:
  assumes "os_ReadFile w ''go.mod'' = Inr b"
    and "modfile_Parse w b = Inr gomod"
    and "buildinfo_ReadFile w binPath = Inl err"
    and "errors_Is_ErrNotExist err"
  shows "requiresInstall sv w binPath = Ok True
         \<and> main_requiresInstall w binPath = Ok True
         \<and> part_001_requiresInstall w binPath = Ok True"
  using assms
  by (simp add: requiresInstall_def main_requiresInstall_def moduleFromBinary_def
      part_001_requiresInstall_def)

theorem missing_binary_requires_install_witness:
  "os_ReadFile (world_of gomod_1_21 None) ''go.mod'' = Inr ''go.mod bytes''
   \<and> modfile_Parse (world_of gomod_1_21 None) ''go.mod bytes'' = Inr gomod_1_21
   \<and> buildinfo_ReadFile (world_of gomod_1_21 None) ''bin/tool'' = Inl ErrNotExist
   \<and> errors_Is_ErrNotExist ErrNotExist
   \<and> requiresInstall x_mod_semver (world_of gomod_1_21 None) ''bin/tool'' = Ok True
   \<and> main_requiresInstall (world_of gomod_1_21 None) ''bin/tool'' = Ok True
   \<and> part_001_requiresInstall (world_of gomod_1_21 None) ''bin/tool'' = Ok True"
proof -
  have r: "os_ReadFile (world_of gomod_1_21 None) ''go.mod'' = Inr ''go.mod bytes''"
    by (simp add: world_of_def)
  have p: "modfile_Parse (world_of gomod_1_21 None) ''go.mod bytes'' = Inr gomod_1_21"
    by (simp add: world_of_def)
  have i: "buildinfo_ReadFile (world_of gomod_1_21 None) ''bin/tool'' = Inl ErrNotExist"
    by (simp add: world_of_def)
  have e: "errors_Is_ErrNotExist ErrNotExist" by simp
  from missing_binary_requires_install [OF r p i e, of x_mod_semver] r p i e
  show ?thesis by simp
qed

text \<open>
  C2. The binary is there, the toolchain check passes (\<open>needsUpdateForGo\<close> returns
  \<^verbatim>\<open>(false, nil)\<close>) and some requirement of go.mod has the binary's module path. Then
  \<open>versionFromGoMod\<close> finds a requirement with that path, and \<open>requiresInstall\<close>
  returns \<^verbatim>\<open>true\<close> exactly when the requirement's version string and the binary's
  version string differ, \<^verbatim>\<open>false\<close> when they are the same string. Nothing is known
  of the strings: they are compared with \<open>=\<close>.
\<close>

theorem module_version_mismatch_decides:
  assumes "os_ReadFile w ''go.mod'' = Inr b"
    and "modfile_Parse w b = Inr gomod"
    and "buildinfo_ReadFile w binPath = Inr info"
    and "needsUpdateForGo sv gomod info = Ok False"
    and "\<exists>r\<in>set (File_Require gomod). Version_Path (Mod r) = Module_Path (Main info)"
  shows "\<exists>entry. versionFromGoMod gomod (Main info) = Some entry
           \<and> entry \<in> Mod ` set (File_Require gomod)
           \<and> Version_Path entry = Module_Path (Main info)
           \<and> requiresInstall sv w binPath
               = Ok (Version_Version entry \<noteq> Module_Version (Main info))"
proof -
  from assms(5) have "versionFromGoMod_loop (File_Require gomod) (Main info) \<noteq> None"
    by (simp add: versionFromGoMod_loop_None)
  then obtain entry where found: "versionFromGoMod gomod (Main info) = Some entry"
    by (auto simp: versionFromGoMod_def)
  then have "entry \<in> Mod ` set (File_Require gomod)
             \<and> Version_Path entry = Module_Path (Main info)"
    using versionFromGoMod_loop_Some [of "File_Require gomod" "Main info" entry]
    by (simp add: versionFromGoMod_def)
  moreover from assms(1-4) found
  have "requiresInstall sv w binPath
          = Ok (Version_Version entry \<noteq> Module_Version (Main info))"
    by (auto simp: requiresInstall_def)
  ultimately show ?thesis using found by blast
qed

theorem module_version_mismatch_decides_witness:
  "needsUpdateForGo x_mod_semver gomod_1_21
      (binary_of ''go1.22'' ''example.com/tool'' ''v1.1.0'') = Ok False
   \<and> (\<exists>r\<in>set (File_Require gomod_1_21).
         Version_Path (Mod r)
           = Module_Path (Main (binary_of ''go1.22'' ''example.com/tool'' ''v1.1.0'')))
   \<and> requiresInstall x_mod_semver
        (world_of gomod_1_21 (Some (binary_of ''go1.22'' ''example.com/tool'' ''v1.1.0'')))
        ''bin/tool'' = Ok True"
proof -
  let ?info = "binary_of ''go1.22'' ''example.com/tool'' ''v1.1.0''"
  let ?w = "world_of gomod_1_21 (Some ?info)"
  have r: "os_ReadFile ?w ''go.mod'' = Inr ''go.mod bytes''"
    by (simp add: world_of_def)
  have p: "modfile_Parse ?w ''go.mod bytes'' = Inr gomod_1_21"
    by (simp add: world_of_def)
  have i: "buildinfo_ReadFile ?w ''bin/tool'' = Inr ?info"
    by (simp add: world_of_def)
  have g: "needsUpdateForGo x_mod_semver gomod_1_21 ?info = Ok False"
    by (simp add: needsUpdateForGo_def run_semver run_world)
  have m: "\<exists>r\<in>set (File_Require gomod_1_21).
             Version_Path (Mod r) = Module_Path (Main ?info)"
    by (simp add: run_world)
  from module_version_mismatch_decides [OF r p i g m]
  obtain entry where "entry \<in> Mod ` set (File_Require gomod_1_21)"
    and "requiresInstall x_mod_semver ?w ''bin/tool''
           = Ok (Version_Version entry \<noteq> Module_Version (Main ?info))"
    by blast
  then have "requiresInstall x_mod_semver ?w ''bin/tool'' = Ok True"
    by (auto simp: run_world)
  with g m show ?thesis by blast
qed

text \<open>
  C3. The binary is there, go.mod has a \<^verbatim>\<open>go\<close> directive and
  \<^verbatim>\<open>semver.IsValid\<close> accepts both normalized toolchain versions. If
  \<^verbatim>\<open>semver.Compare\<close> of the binary's version with go.mod's is \<open>-1\<close>,
  \<open>requiresInstall\<close> returns \<^verbatim>\<open>(true, nil)\<close>, whatever the module versions are.
  Otherwise (equal or greater) \<open>needsUpdateForGo\<close> returns \<^verbatim>\<open>(false, nil)\<close> and
  the result is the result of the module check alone.
\<close>

theorem older_toolchain_requires_install:
  assumes "os_ReadFile w ''go.mod'' = Inr b"
    and "modfile_Parse w b = Inr gomod"
    and "buildinfo_ReadFile w binPath = Inr info"
    and "File_Go gomod = Some g"
    and "IsValid sv (modGoVersion (Go_Version g))"
    and "IsValid sv (binGoVersion (GoVersion info))"
  shows "(Compare sv (binGoVersion (GoVersion info)) (modGoVersion (Go_Version g)) = -1
            \<longrightarrow> requiresInstall sv w binPath = Ok True)
         \<and> (Compare sv (binGoVersion (GoVersion info)) (modGoVersion (Go_Version g)) \<noteq> -1
            \<longrightarrow> needsUpdateForGo sv gomod info = Ok False
              \<and> requiresInstall sv w binPath
                  = (case versionFromGoMod gomod (Main info) of
                       None \<Rightarrow> Ok True
                     | Some entry \<Rightarrow>
                         Ok (Module_Version (Main info) \<noteq> Version_Version entry)))"
  using assms by (simp add: requiresInstall_def needsUpdateForGo_def)

theorem older_toolchain_requires_install_witness:
  "IsValid x_mod_semver (modGoVersion ''1.21'')
   \<and> IsValid x_mod_semver (binGoVersion ''go1.20'')
   \<and> Compare x_mod_semver (binGoVersion ''go1.20'') (modGoVersion ''1.21'') = -1
   \<and> requiresInstall x_mod_semver
        (world_of gomod_1_21 (Some (binary_of ''go1.20'' ''example.com/tool'' ''v1.2.0'')))
        ''bin/tool'' = Ok True
   \<and> IsValid x_mod_semver (binGoVersion ''go1.22'')
   \<and> Compare x_mod_semver (binGoVersion ''go1.22'') (modGoVersion ''1.21'') = 1
   \<and> requiresInstall x_mod_semver
        (world_of gomod_1_21 (Some (binary_of ''go1.22'' ''example.com/tool'' ''v1.2.0'')))
        ''bin/tool'' = Ok False"
proof -
  let ?old = "binary_of ''go1.20'' ''example.com/tool'' ''v1.2.0''"
  let ?new = "binary_of ''go1.22'' ''example.com/tool'' ''v1.2.0''"
  have r: "os_ReadFile (world_of gomod_1_21 (Some info)) ''go.mod'' = Inr ''go.mod bytes''"
    for info by (simp add: world_of_def)
  have p: "modfile_Parse (world_of gomod_1_21 (Some info)) ''go.mod bytes'' = Inr gomod_1_21"
    for info by (simp add: world_of_def)
  have i: "buildinfo_ReadFile (world_of gomod_1_21 (Some info)) ''bin/tool'' = Inr info"
    for info by (simp add: world_of_def)
  have g: "File_Go gomod_1_21 = Some \<lparr>Go_Version = ''1.21''\<rparr>"
    by (simp add: gomod_1_21_def)
  have vm: "IsValid x_mod_semver (modGoVersion (Go_Version \<lparr>Go_Version = ''1.21''\<rparr>))"
    by (simp add: run_semver)
  have vo: "IsValid x_mod_semver (binGoVersion (GoVersion ?old))"
    by (simp add: run_semver binary_of_def)
  have vn: "IsValid x_mod_semver (binGoVersion (GoVersion ?new))"
    by (simp add: run_semver binary_of_def)
  have co: "Compare x_mod_semver (binGoVersion ''go1.20'') (modGoVersion ''1.21'') = -1"
    by (simp add: run_semver)
  have cn: "Compare x_mod_semver (binGoVersion ''go1.22'') (modGoVersion ''1.21'') = 1"
    by (simp add: run_semver)
  have found: "versionFromGoMod gomod_1_21 (Main ?new)
                 = Some \<lparr>Version_Path = ''example.com/tool'', Version_Version = ''v1.2.0''\<rparr>"
    by (simp add: versionFromGoMod_def run_world)
  from older_toolchain_requires_install [OF r p i g vm vo] co
  have old: "requiresInstall x_mod_semver (world_of gomod_1_21 (Some ?old)) ''bin/tool''
               = Ok True"
    by (simp add: binary_of_def)
  from older_toolchain_requires_install [OF r p i g vm vn] cn found
  have new: "requiresInstall x_mod_semver (world_of gomod_1_21 (Some ?new)) ''bin/tool''
               = Ok False"
    by (simp add: binary_of_def)
  from vm vo vn co cn old new show ?thesis by (simp add: binary_of_def)
qed

text \<open>
  C4. The binary is there, the toolchain check passes and no requirement of go.mod has the
  binary's module path. Then \<open>requiresInstall\<close> of part_000 returns
  \<^verbatim>\<open>(true, nil)\<close>: a verdict, not an error. (The two revisions that have no
  toolchain check return an error there: \<open>plain_revisions_fail_when_not_found\<close>.)
\<close>

theorem unknown_module_requires_install:
  assumes "os_ReadFile w ''go.mod'' = Inr b"
    and "modfile_Parse w b = Inr gomod"
    and "buildinfo_ReadFile w binPath = Inr info"
    and "needsUpdateForGo sv gomod info = Ok False"
    and "\<forall>r\<in>set (File_Require gomod). Version_Path (Mod r) \<noteq> Module_Path (Main info)"
  shows "versionFromGoMod gomod (Main info) = None
         \<and> requiresInstall sv w binPath = Ok True"
proof -
  from assms(5) have "versionFromGoMod gomod (Main info) = None"
    by (simp add: versionFromGoMod_def versionFromGoMod_loop_None)
  with assms(1-4) show ?thesis by (simp add: requiresInstall_def)
qed

theorem unknown_module_requires_install_witness:
  "needsUpdateForGo x_mod_semver gomod_1_21
      (binary_of ''go1.22'' ''example.com/renamed-tool'' ''v1.2.0'') = Ok False
   \<and> map (\<lambda>r. Version_Path (Mod r)) (File_Require gomod_1_21) = [''example.com/tool'']
   \<and> Module_Path (Main (binary_of ''go1.22'' ''example.com/renamed-tool'' ''v1.2.0''))
       = ''example.com/renamed-tool''
   \<and> requiresInstall x_mod_semver
        (world_of gomod_1_21
           (Some (binary_of ''go1.22'' ''example.com/renamed-tool'' ''v1.2.0'')))
        ''bin/tool'' = Ok True"
proof -
  let ?info = "binary_of ''go1.22'' ''example.com/renamed-tool'' ''v1.2.0''"
  let ?w = "world_of gomod_1_21 (Some ?info)"
  have r: "os_ReadFile ?w ''go.mod'' = Inr ''go.mod bytes''"
    by (simp add: world_of_def)
  have p: "modfile_Parse ?w ''go.mod bytes'' = Inr gomod_1_21"
    by (simp add: world_of_def)
  have i: "buildinfo_ReadFile ?w ''bin/tool'' = Inr ?info"
    by (simp add: world_of_def)
  have g: "needsUpdateForGo x_mod_semver gomod_1_21 ?info = Ok False"
    by (simp add: needsUpdateForGo_def run_semver run_world)
  have m: "\<forall>r\<in>set (File_Require gomod_1_21).
             Version_Path (Mod r) \<noteq> Module_Path (Main ?info)"
    by (simp add: run_world)
  have paths: "map (\<lambda>r. Version_Path (Mod r)) (File_Require gomod_1_21)
                 = [''example.com/tool'']"
    by (simp add: run_world)
  have path: "Module_Path (Main ?info) = ''example.com/renamed-tool''"
    by (simp add: run_world)
  from unknown_module_requires_install [OF r p i g m] g paths path show ?thesis by blast
qed

text \<open>
  C5, as stated, fails: with two requirements of the binary's module path,
  \<open>versionFromGoMod\<close> returns the first. Here go.mod requires
  \<^verbatim>\<open>example.com/tool\<close> at v1.0.0 and then at v1.1.0, and the binary is v1.0.0. The
  last requirement differs from the binary, and still the answer is \<^verbatim>\<open>false\<close>, up to
  date: the binary was compared with the first.
\<close>

theorem last_requirement_counterexample:
  "versionFromGoMod gomod_duplicate
      (Main (binary_of ''go1.21'' ''example.com/tool'' ''v1.0.0''))
     = Some (Mod (hd (File_Require gomod_duplicate)))
   \<and> Version_Path (Mod (last (File_Require gomod_duplicate))) = ''example.com/tool''
   \<and> Version_Version (Mod (last (File_Require gomod_duplicate)))
       \<noteq> Module_Version (Main (binary_of ''go1.21'' ''example.com/tool'' ''v1.0.0''))
   \<and> requiresInstall x_mod_semver
        (world_of gomod_duplicate (Some (binary_of ''go1.21'' ''example.com/tool'' ''v1.0.0'')))
        ''bin/tool'' = Ok False
   \<and> main_requiresInstall
        (world_of gomod_duplicate (Some (binary_of ''go1.21'' ''example.com/tool'' ''v1.0.0'')))
        ''bin/tool'' = Ok False"
  by (simp add: requiresInstall_def main_requiresInstall_def moduleFromBinary_def
      needsUpdateForGo_def versionFromGoMod_def gomod_duplicate_def run_semver run_world)

text \<open>
  C5, amended. Let go.mod's requirements be \<open>pre @ r # post\<close> with \<open>r\<close> of the
  binary's module path. If no requirement of \<open>pre\<close> has that path, so that \<open>r\<close> is the
  first match, \<open>versionFromGoMod\<close> (part_000 and main.go) returns \<open>r\<close>, and
  both revisions compare the binary's version with that of \<open>r\<close>, whatever \<open>post\<close>
  holds. Only the loop of part_001 keeps the last match: if no requirement of
  \<open>post\<close> has the path, it compares with \<open>r\<close> whatever \<open>pre\<close> holds.
\<close>

theorem first_requirement_is_compared:
  assumes "os_ReadFile w ''go.mod'' = Inr b"
    and "modfile_Parse w b = Inr gomod"
    and "buildinfo_ReadFile w binPath = Inr info"
    and "File_Require gomod = pre @ r # post"
    and "Version_Path (Mod r) = Module_Path (Main info)"
  shows "((\<forall>q\<in>set pre. Version_Path (Mod q) \<noteq> Module_Path (Main info)) \<longrightarrow>
            versionFromGoMod gomod (Main info) = Some (Mod r)
            \<and> main_requiresInstall w binPath
                = Ok (Module_Version (Main info) \<noteq> Version_Version (Mod r))
            \<and> (needsUpdateForGo sv gomod info = Ok False \<longrightarrow>
                 requiresInstall sv w binPath
                   = Ok (Module_Version (Main info) \<noteq> Version_Version (Mod r))))
         \<and> ((\<forall>q\<in>set post. Version_Path (Mod q) \<noteq> Module_Path (Main info)) \<longrightarrow>
            part_001_requiresInstall w binPath
              = Ok (Module_Version (Main info) \<noteq> Version_Version (Mod r)))"
proof (intro conjI impI)
  assume first: "\<forall>q\<in>set pre. Version_Path (Mod q) \<noteq> Module_Path (Main info)"
  from versionFromGoMod_loop_first [OF first assms(5), of post] assms(4)
  show found: "versionFromGoMod gomod (Main info) = Some (Mod r)"
    by (simp add: versionFromGoMod_def)
  from found assms(1-3)
  show "main_requiresInstall w binPath
          = Ok (Module_Version (Main info) \<noteq> Version_Version (Mod r))"
    by (simp add: main_requiresInstall_def moduleFromBinary_def)
  assume "needsUpdateForGo sv gomod info = Ok False"
  with found assms(1-3)
  show "requiresInstall sv w binPath
          = Ok (Module_Version (Main info) \<noteq> Version_Version (Mod r))"
    by (simp add: requiresInstall_def)
next
  assume last: "\<forall>q\<in>set post. Version_Path (Mod q) \<noteq> Module_Path (Main info)"
  from part_001_loop_last [OF last assms(5), of None pre] assms(4)
  have "part_001_loop None (File_Require gomod) (Main info) = Some (Mod r)"
    by simp
  with assms(1-3)
  show "part_001_requiresInstall w binPath
          = Ok (Module_Version (Main info) \<noteq> Version_Version (Mod r))"
    by (simp add: part_001_requiresInstall_def)
qed

theorem first_requirement_is_compared_witness:
  "File_Require gomod_duplicate = [] @ tool_require ''v1.0.0'' # [tool_require ''v1.1.0'']
   \<and> File_Require gomod_duplicate = [tool_require ''v1.0.0''] @ tool_require ''v1.1.0'' # []
   \<and> requiresInstall x_mod_semver
        (world_of gomod_duplicate (Some (binary_of ''go1.21'' ''example.com/tool'' ''v1.1.0'')))
        ''bin/tool'' = Ok True
   \<and> main_requiresInstall
        (world_of gomod_duplicate (Some (binary_of ''go1.21'' ''example.com/tool'' ''v1.1.0'')))
        ''bin/tool'' = Ok True
   \<and> part_001_requiresInstall
        (world_of gomod_duplicate (Some (binary_of ''go1.21'' ''example.com/tool'' ''v1.1.0'')))
        ''bin/tool'' = Ok False"
proof -
  let ?info = "binary_of ''go1.21'' ''example.com/tool'' ''v1.1.0''"
  let ?w = "world_of gomod_duplicate (Some ?info)"
  have r: "os_ReadFile ?w ''go.mod'' = Inr ''go.mod bytes''"
    by (simp add: world_of_def)
  have p: "modfile_Parse ?w ''go.mod bytes'' = Inr gomod_duplicate"
    by (simp add: world_of_def)
  have i: "buildinfo_ReadFile ?w ''bin/tool'' = Inr ?info"
    by (simp add: world_of_def)
  have s1: "File_Require gomod_duplicate
              = [] @ tool_require ''v1.0.0'' # [tool_require ''v1.1.0'']"
    by (simp add: gomod_duplicate_def)
  have s2: "File_Require gomod_duplicate
              = [tool_require ''v1.0.0''] @ tool_require ''v1.1.0'' # []"
    by (simp add: gomod_duplicate_def)
  have m1: "Version_Path (Mod (tool_require ''v1.0.0'')) = Module_Path (Main ?info)"
    by (simp add: run_world)
  have m2: "Version_Path (Mod (tool_require ''v1.1.0'')) = Module_Path (Main ?info)"
    by (simp add: run_world)
  have g: "needsUpdateForGo x_mod_semver gomod_duplicate ?info = Ok False"
    by (simp add: needsUpdateForGo_def gomod_duplicate_def run_semver run_world)
  from first_requirement_is_compared [OF r p i s1 m1, of x_mod_semver] g
  have a: "requiresInstall x_mod_semver ?w ''bin/tool'' = Ok True
           \<and> main_requiresInstall ?w ''bin/tool'' = Ok True"
    by (simp add: run_world)
  from first_requirement_is_compared [OF r p i s2 m2, of x_mod_semver]
  have b: "part_001_requiresInstall ?w ''bin/tool'' = Ok False"
    by (simp add: run_world)
  from s1 s2 a b show ?thesis by blast
qed

text \<open>
  With a \<^verbatim>\<open>go\<close> directive in go.mod and the binary in place: if
  \<^verbatim>\<open>semver.IsValid\<close> rejects the normalized version of go.mod or that of the binary,
  \<open>requiresInstall\<close> returns an error and no verdict: \<^verbatim>\<open>parsing go.mod go version\<close>
  when go.mod's is rejected (it is looked at first), \<^verbatim>\<open>parsing binary go version\<close>
  otherwise.
\<close>

lemma invalid_toolchain_version_with_go_directive:
  assumes "os_ReadFile w ''go.mod'' = Inr b"
    and "modfile_Parse w b = Inr gomod"
    and "buildinfo_ReadFile w binPath = Inr info"
    and "File_Go gomod = Some g"
    and "\<not> IsValid sv (modGoVersion (Go_Version g))
         \<or> \<not> IsValid sv (binGoVersion (GoVersion info))"
  shows "requiresInstall sv w binPath
           = (if \<not> IsValid sv (modGoVersion (Go_Version g))
              then Err (ParsingGoModGoVersion (modGoVersion (Go_Version g)))
              else Err (ParsingBinaryGoVersion (binGoVersion (GoVersion info))))"
  using assms by (auto simp: requiresInstall_def needsUpdateForGo_def)

lemma invalid_toolchain_version_with_go_directive_example:
  "\<not> IsValid x_mod_semver (modGoVersion ''1.21rc1'')
   \<and> requiresInstall x_mod_semver
        (world_of gomod_rc (Some (binary_of ''go1.22'' ''example.com/tool'' ''v1.2.0'')))
        ''bin/tool'' = Err (ParsingGoModGoVersion ''v1.21rc1'')
   \<and> IsValid x_mod_semver (modGoVersion ''1.21'')
   \<and> \<not> IsValid x_mod_semver (binGoVersion ''devel +a1b2c3'')
   \<and> requiresInstall x_mod_semver
        (world_of gomod_1_21
           (Some (binary_of ''devel +a1b2c3'' ''example.com/tool'' ''v1.2.0'')))
        ''bin/tool'' = Err (ParsingBinaryGoVersion ''vdevel +a1b2c3'')"
proof -
  let ?ok = "binary_of ''go1.22'' ''example.com/tool'' ''v1.2.0''"
  let ?devel = "binary_of ''devel +a1b2c3'' ''example.com/tool'' ''v1.2.0''"
  have r: "os_ReadFile (world_of gomod (Some info)) ''go.mod'' = Inr ''go.mod bytes''"
    for gomod info by (simp add: world_of_def)
  have p: "modfile_Parse (world_of gomod (Some info)) ''go.mod bytes'' = Inr gomod"
    for gomod info by (simp add: world_of_def)
  have i: "buildinfo_ReadFile (world_of gomod (Some info)) ''bin/tool'' = Inr info"
    for gomod info by (simp add: world_of_def)
  have grc: "File_Go gomod_rc = Some \<lparr>Go_Version = ''1.21rc1''\<rparr>"
    by (simp add: gomod_rc_def)
  have g: "File_Go gomod_1_21 = Some \<lparr>Go_Version = ''1.21''\<rparr>"
    by (simp add: gomod_1_21_def)
  have bad_mod: "\<not> IsValid x_mod_semver (modGoVersion ''1.21rc1'')"
    by (simp add: run_semver)
  have good_mod: "IsValid x_mod_semver (modGoVersion ''1.21'')"
    by (simp add: run_semver)
  have bad_bin: "\<not> IsValid x_mod_semver (binGoVersion ''devel +a1b2c3'')"
    by (simp add: run_semver)
  from bad_mod
  have h1: "\<not> IsValid x_mod_semver (modGoVersion (Go_Version \<lparr>Go_Version = ''1.21rc1''\<rparr>))
            \<or> \<not> IsValid x_mod_semver (binGoVersion (GoVersion ?ok))"
    by simp
  from bad_bin
  have h2: "\<not> IsValid x_mod_semver (modGoVersion (Go_Version \<lparr>Go_Version = ''1.21''\<rparr>))
            \<or> \<not> IsValid x_mod_semver (binGoVersion (GoVersion ?devel))"
    by (simp add: binary_of_def)
  from invalid_toolchain_version_with_go_directive [OF r p i grc h1] bad_mod
  have a: "requiresInstall x_mod_semver (world_of gomod_rc (Some ?ok)) ''bin/tool''
             = Err (ParsingGoModGoVersion ''v1.21rc1'')"
    by (simp add: modGoVersion_def)
  from invalid_toolchain_version_with_go_directive [OF r p i g h2] good_mod
  have b: "requiresInstall x_mod_semver (world_of gomod_1_21 (Some ?devel)) ''bin/tool''
             = Err (ParsingBinaryGoVersion ''vdevel +a1b2c3'')"
    by (simp add: binary_of_def binGoVersion_def strings_TrimPrefix_def)
  from bad_mod good_mod bad_bin a b show ?thesis by blast
qed

text \<open>
  C6 holds of every manifest that has a \<^verbatim>\<open>go\<close> directive (the lemma above) and
  fails without one. The go.mod here has no \<^verbatim>\<open>go\<close> directive and the binary was
  built with a development toolchain, whose version \<^verbatim>\<open>devel +a1b2c3\<close> does not
  normalize to a semantic version. \<open>needsUpdateForGo\<close> reads
  \<^verbatim>\<open>gomod.Go.Version\<close> before it validates anything, \<^verbatim>\<open>gomod.Go\<close> is
  \<^verbatim>\<open>nil\<close>, and the program panics where the claim has it return the error
  \<^verbatim>\<open>parsing binary go version\<close>.
\<close>

theorem unparseable_toolchain_without_go_directive_panics:
  "File_Go gomod_without_go = None
   \<and> binGoVersion ''devel +a1b2c3'' = ''vdevel +a1b2c3''
   \<and> IsValid x_mod_semver (binGoVersion ''devel +a1b2c3'') = False
   \<and> requiresInstall x_mod_semver
        (world_of gomod_without_go
           (Some (binary_of ''devel +a1b2c3'' ''example.com/tool'' ''v1.2.0'')))
        ''bin/tool'' = Panic"
  by (simp add: requiresInstall_def needsUpdateForGo_def gomod_without_go_def run_semver
      run_world)

text \<open>
  C7, as stated, fails for a go.mod without a \<^verbatim>\<open>go\<close> directive. The program has
  no check for the directive, and \<^verbatim>\<open>modfile.Parse\<close> returns a file whose
  \<^verbatim>\<open>Go\<close> field is \<^verbatim>\<open>nil\<close>. With no binary at the path part_000 then
  returns the verdict \<^verbatim>\<open>(true, nil)\<close>, and the other revisions, which never read the
  field, return their usual verdict for a binary that is there: in neither case an error.
\<close>

theorem manifest_without_go_counterexample:
  "modfile_Parse (world_of gomod_without_go None) ''go.mod bytes'' = Inr gomod_without_go
   \<and> File_Go gomod_without_go = None
   \<and> requiresInstall x_mod_semver (world_of gomod_without_go None) ''bin/tool'' = Ok True
   \<and> main_requiresInstall
        (world_of gomod_without_go (Some (binary_of ''go1.22'' ''example.com/tool'' ''v1.2.0'')))
        ''bin/tool'' = Ok False
   \<and> part_001_requiresInstall
        (world_of gomod_without_go (Some (binary_of ''go1.22'' ''example.com/tool'' ''v1.2.0'')))
        ''bin/tool'' = Ok False"
  by (simp add: requiresInstall_def main_requiresInstall_def moduleFromBinary_def
      part_001_requiresInstall_def versionFromGoMod_def gomod_without_go_def run_world)

text \<open>
  C7, amended. For every byte sequence that \<^verbatim>\<open>modfile.Parse\<close> rejects, each revision
  of \<open>requiresInstall\<close> returns the error \<^verbatim>\<open>parsing modfile\<close> with the parser's
  message: no verdict and no panic, whatever is at the binary's path.
\<close>

theorem malformed_manifest_is_an_error:
  assumes "os_ReadFile w ''go.mod'' = Inr b"
    and "modfile_Parse w b = Inl msg"
  shows "requiresInstall sv w binPath = Err (ParsingModfile msg)
         \<and> main_requiresInstall w binPath = Err (ParsingModfile msg)
         \<and> part_001_requiresInstall w binPath = Err (ParsingModfile msg)"
  using assms
  by (simp add: requiresInstall_def main_requiresInstall_def part_001_requiresInstall_def)

theorem malformed_manifest_is_an_error_witness:
  "modfile_Parse
      (world_malformed (Some (binary_of ''go1.22'' ''example.com/tool'' ''v1.2.0'')))
      ''go.mod bytes'' = Inl ''unknown directive''
   \<and> requiresInstall x_mod_semver
        (world_malformed (Some (binary_of ''go1.22'' ''example.com/tool'' ''v1.2.0'')))
        ''bin/tool'' = Err (ParsingModfile ''unknown directive'')
   \<and> main_requiresInstall
        (world_malformed (Some (binary_of ''go1.22'' ''example.com/tool'' ''v1.2.0'')))
        ''bin/tool'' = Err (ParsingModfile ''unknown directive'')
   \<and> part_001_requiresInstall
        (world_malformed (Some (binary_of ''go1.22'' ''example.com/tool'' ''v1.2.0'')))
        ''bin/tool'' = Err (ParsingModfile ''unknown directive'')"
proof -
  let ?w = "world_malformed (Some (binary_of ''go1.22'' ''example.com/tool'' ''v1.2.0''))"
  have r: "os_ReadFile ?w ''go.mod'' = Inr ''go.mod bytes''"
    by (simp add: world_malformed_def world_of_def)
  have p: "modfile_Parse ?w ''go.mod bytes'' = Inl ''unknown directive''"
    by (simp add: world_malformed_def)
  from malformed_manifest_is_an_error [OF r p, of x_mod_semver "''bin/tool''"] p
  show ?thesis by simp
qed

text \<open>
  C8, as stated, fails: normalization is not idempotent. It puts a \<^verbatim>\<open>v\<close> in front,
  so a second pass makes \<^verbatim>\<open>vv1.21\<close> of \<^verbatim>\<open>v1.21\<close>, which is no semantic version;
  the comparison of a Go 1.22 binary with a go.mod of Go 1.21 turns from \<open>1\<close> to \<open>-1\<close>
  when the binary's version is normalized twice.
\<close>

theorem normalization_twice_counterexample:
  "modGoVersion (modGoVersion ''1.21'') \<noteq> modGoVersion ''1.21''
   \<and> binGoVersion (binGoVersion ''go1.22'') \<noteq> binGoVersion ''go1.22''
   \<and> IsValid x_mod_semver (modGoVersion ''1.21'')
   \<and> \<not> IsValid x_mod_semver (modGoVersion (modGoVersion ''1.21''))
   \<and> Compare x_mod_semver (binGoVersion ''go1.22'') (modGoVersion ''1.21'') = 1
   \<and> Compare x_mod_semver (binGoVersion (binGoVersion ''go1.22'')) (modGoVersion ''1.21'') = -1"
  by (simp add: run_semver)

text \<open>
  C8, amended. Normalization unifies the two grammars: the bare string \<open>s\<close> of go.mod
  and the prefixed string \<^verbatim>\<open>go\<close>\<open>s\<close> of a binary normalize to the same string,
  \<^verbatim>\<open>v\<close>\<open>s\<close>; \<^verbatim>\<open>semver.Compare\<close> of the two is \<open>0\<close>; and when
  \<^verbatim>\<open>semver.IsValid\<close> accepts that string the toolchain check answers
  \<^verbatim>\<open>(false, nil)\<close>.
\<close>

theorem normalization_unifies_prefixes:
  "binGoVersion (''go'' @ s) = modGoVersion s
   \<and> modGoVersion s = ''v'' @ s
   \<and> Compare x_mod_semver (binGoVersion (''go'' @ s)) (modGoVersion s) = 0
   \<and> (File_Go gomod = Some g \<and> Go_Version g = s \<and> GoVersion info = ''go'' @ s
        \<and> IsValid x_mod_semver (modGoVersion s)
      \<longrightarrow> needsUpdateForGo x_mod_semver gomod info = Ok False)"
proof -
  have same: "binGoVersion (''go'' @ s) = modGoVersion s"
    by (rule binGoVersion_go)
  have eq: "Compare x_mod_semver (binGoVersion (''go'' @ s)) (modGoVersion s) = 0"
    by (simp add: binGoVersion_go_Cons x_mod_semver_def semver_Compare_refl)
  have "needsUpdateForGo x_mod_semver gomod info = Ok False"
    if "File_Go gomod = Some g" "Go_Version g = s" "GoVersion info = ''go'' @ s"
      "IsValid x_mod_semver (modGoVersion s)"
    using that eq by (simp add: needsUpdateForGo_def binGoVersion_go_Cons)
  with same eq show ?thesis by (simp add: modGoVersion_def)
qed

theorem normalization_unifies_prefixes_witness:
  "binGoVersion ''go1.21'' = ''v1.21''
   \<and> modGoVersion ''1.21'' = ''v1.21''
   \<and> Compare x_mod_semver (binGoVersion ''go1.21'') (modGoVersion ''1.21'') = 0
   \<and> IsValid x_mod_semver (modGoVersion ''1.21'')
   \<and> needsUpdateForGo x_mod_semver gomod_1_21
        (binary_of ''go1.21'' ''example.com/tool'' ''v1.2.0'') = Ok False"
proof -
  let ?info = "binary_of ''go1.21'' ''example.com/tool'' ''v1.2.0''"
  have g: "File_Go gomod_1_21 = Some \<lparr>Go_Version = ''1.21''\<rparr>"
    by (simp add: gomod_1_21_def)
  have v: "GoVersion ?info = ''go'' @ ''1.21''"
    by (simp add: binary_of_def)
  have ok: "IsValid x_mod_semver (modGoVersion ''1.21'')"
    by (simp add: run_semver)
  from normalization_unifies_prefixes
         [of "''1.21''" gomod_1_21 "\<lparr>Go_Version = ''1.21''\<rparr>" ?info] g v ok
  show ?thesis by (simp add: modGoVersion_def binGoVersion_def strings_TrimPrefix_def)
qed

text \<open>
  C9. The search reads \<^verbatim>\<open>gomod.Require\<close> and nothing else. If no requirement of
  go.mod has the module path of the binary then the search finds nothing, in
  part_000 (and main.go) and in the loop of part_001, also when a \<^verbatim>\<open>replace\<close> or
  \<^verbatim>\<open>exclude\<close> directive names the path; and every revision answers exactly as it
  does for the same go.mod with those directives deleted.
\<close>

theorem only_require_is_searched:
  assumes "os_ReadFile w ''go.mod'' = Inr b"
    and "modfile_Parse w b = Inr gomod"
    and "\<forall>r\<in>set (File_Require gomod). Version_Path (Mod r) \<noteq> Module_Path bin"
  shows "versionFromGoMod gomod bin = None
         \<and> part_001_loop None (File_Require gomod) bin = None
         \<and> versionFromGoMod (require_only gomod) bin = None
         \<and> requiresInstall sv w binPath
             = requiresInstall sv (parsing_to w (require_only gomod)) binPath
         \<and> main_requiresInstall w binPath
             = main_requiresInstall (parsing_to w (require_only gomod)) binPath
         \<and> part_001_requiresInstall w binPath
             = part_001_requiresInstall (parsing_to w (require_only gomod)) binPath"
proof -
  from assms(3) have none: "versionFromGoMod gomod bin = None"
    by (simp add: versionFromGoMod_def versionFromGoMod_loop_None)
  from assms(3) have none_001: "part_001_loop None (File_Require gomod) bin = None"
    by (rule part_001_loop_no_match)
  have same_search: "versionFromGoMod (require_only gomod) m = versionFromGoMod gomod m"
    for m by (simp add: versionFromGoMod_def require_only_def)
  have same_go: "needsUpdateForGo sv (require_only gomod) info = needsUpdateForGo sv gomod info"
    for info by (simp add: needsUpdateForGo_def require_only_def)
  have same_require: "File_Require (require_only gomod) = File_Require gomod"
    by (simp add: require_only_def)
  from assms(1,2)
  have a: "requiresInstall sv w binPath
             = requiresInstall sv (parsing_to w (require_only gomod)) binPath"
    by (simp add: requiresInstall_def parsing_to_def same_search same_go
        split: sum.split result.split)
  from assms(1,2)
  have b: "main_requiresInstall w binPath
             = main_requiresInstall (parsing_to w (require_only gomod)) binPath"
    by (simp add: main_requiresInstall_def moduleFromBinary_def parsing_to_def same_search
        cong: sum.case_cong)
  from assms(1,2)
  have c: "part_001_requiresInstall w binPath
             = part_001_requiresInstall (parsing_to w (require_only gomod)) binPath"
    by (simp add: part_001_requiresInstall_def parsing_to_def same_require
        cong: sum.case_cong)
  from none none_001 a b c show ?thesis by (simp add: same_search)
qed

theorem only_require_is_searched_witness:
  "(\<exists>r\<in>set (File_Replace gomod_replace). Version_Path (Old r) = ''example.com/renamed-tool'')
   \<and> map (\<lambda>r. Version_Path (Mod r)) (File_Require gomod_replace) = [''example.com/tool'']
   \<and> Module_Path (Main (binary_of ''go1.22'' ''example.com/renamed-tool'' ''v1.2.0''))
       = ''example.com/renamed-tool''
   \<and> versionFromGoMod gomod_replace
        (Main (binary_of ''go1.22'' ''example.com/renamed-tool'' ''v1.2.0'')) = None
   \<and> requiresInstall x_mod_semver
        (world_of gomod_replace
           (Some (binary_of ''go1.22'' ''example.com/renamed-tool'' ''v1.2.0'')))
        ''bin/tool''
       = requiresInstall x_mod_semver
           (world_of gomod_1_21
              (Some (binary_of ''go1.22'' ''example.com/renamed-tool'' ''v1.2.0'')))
           ''bin/tool''"
proof -
  let ?info = "binary_of ''go1.22'' ''example.com/renamed-tool'' ''v1.2.0''"
  let ?w = "world_of gomod_replace (Some ?info)"
  have r: "os_ReadFile ?w ''go.mod'' = Inr ''go.mod bytes''"
    by (simp add: world_of_def)
  have p: "modfile_Parse ?w ''go.mod bytes'' = Inr gomod_replace"
    by (simp add: world_of_def)
  have m: "\<forall>r\<in>set (File_Require gomod_replace).
             Version_Path (Mod r) \<noteq> Module_Path (Main ?info)"
    by (simp add: gomod_replace_def run_world)
  have named: "\<exists>r\<in>set (File_Replace gomod_replace).
                 Version_Path (Old r) = ''example.com/renamed-tool''"
    by (simp add: gomod_replace_def)
  have deleted: "parsing_to ?w (require_only gomod_replace) = world_of gomod_1_21 (Some ?info)"
    by (simp add: parsing_to_def require_only_def world_of_def gomod_replace_def
        gomod_1_21_def)
  have paths: "map (\<lambda>r. Version_Path (Mod r)) (File_Require gomod_replace)
                 = [''example.com/tool'']"
    by (simp add: gomod_replace_def run_world)
  have path: "Module_Path (Main ?info) = ''example.com/renamed-tool''"
    by (simp add: run_world)
  from only_require_is_searched [OF r p m, of x_mod_semver "''bin/tool''"]
    named paths path deleted
  show ?thesis by simp
qed

text \<open>
  C10. Let there be no file at the binary's path. If go.mod reads and parses,
  \<open>requiresInstall\<close> returns \<^verbatim>\<open>(true, nil)\<close> for every parsed manifest and every
  \<^verbatim>\<open>semver.IsValid\<close>: the toolchain versions are not looked at, so an unparseable
  one is no error. If go.mod cannot be read, or does not parse, the error of the read or
  of the parse is returned all the same.
\<close>

theorem missing_binary_is_checked_before_toolchain:
  assumes "buildinfo_ReadFile w binPath = Inl err"
    and "errors_Is_ErrNotExist err"
  shows "(\<forall>b gomod. os_ReadFile w ''go.mod'' = Inr b \<and> modfile_Parse w b = Inr gomod
            \<longrightarrow> requiresInstall sv w binPath = Ok True)
         \<and> (\<forall>e. os_ReadFile w ''go.mod'' = Inl e
            \<longrightarrow> requiresInstall sv w binPath = Err (ReadingModfile e))
         \<and> (\<forall>b msg. os_ReadFile w ''go.mod'' = Inr b \<and> modfile_Parse w b = Inl msg
            \<longrightarrow> requiresInstall sv w binPath = Err (ParsingModfile msg))"
  using assms by (simp add: requiresInstall_def)

theorem missing_binary_is_checked_before_toolchain_witness:
  "\<not> IsValid x_mod_semver (modGoVersion ''1.21rc1'')
   \<and> requiresInstall x_mod_semver (world_of gomod_rc None) ''bin/tool'' = Ok True
   \<and> requiresInstall x_mod_semver (world_of gomod_without_go None) ''bin/tool'' = Ok True
   \<and> requiresInstall x_mod_semver (world_malformed None) ''bin/tool''
       = Err (ParsingModfile ''unknown directive'')
   \<and> requiresInstall x_mod_semver
        ((world_of gomod_1_21 None)\<lparr>os_ReadFile := (\<lambda>path. Inl ErrNotExist)\<rparr>) ''bin/tool''
       = Err (ReadingModfile ErrNotExist)"
proof -
  let ?unreadable = "(world_of gomod_1_21 None)\<lparr>os_ReadFile := (\<lambda>path. Inl ErrNotExist)\<rparr>"
  have e: "errors_Is_ErrNotExist ErrNotExist" by simp
  have i: "buildinfo_ReadFile (world_of gomod None) ''bin/tool'' = Inl ErrNotExist"
    for gomod by (simp add: world_of_def)
  have im: "buildinfo_ReadFile (world_malformed None) ''bin/tool'' = Inl ErrNotExist"
    by (simp add: world_malformed_def world_of_def)
  have iu: "buildinfo_ReadFile ?unreadable ''bin/tool'' = Inl ErrNotExist"
    by (simp add: world_of_def)
  have bad: "\<not> IsValid x_mod_semver (modGoVersion ''1.21rc1'')"
    by (simp add: run_semver)
  from missing_binary_is_checked_before_toolchain [OF i e, of gomod_rc x_mod_semver]
  have a: "requiresInstall x_mod_semver (world_of gomod_rc None) ''bin/tool'' = Ok True"
    by (simp add: world_of_def)
  from missing_binary_is_checked_before_toolchain [OF i e, of gomod_without_go x_mod_semver]
  have b: "requiresInstall x_mod_semver (world_of gomod_without_go None) ''bin/tool'' = Ok True"
    by (simp add: world_of_def)
  from missing_binary_is_checked_before_toolchain [OF im e, of x_mod_semver]
  have c: "requiresInstall x_mod_semver (world_malformed None) ''bin/tool''
             = Err (ParsingModfile ''unknown directive'')"
    by (simp add: world_malformed_def world_of_def)
  from missing_binary_is_checked_before_toolchain [OF iu e, of x_mod_semver]
  have d: "requiresInstall x_mod_semver ?unreadable ''bin/tool''
             = Err (ReadingModfile ErrNotExist)"
    by (simp add: world_of_def)
  from bad a b c d show ?thesis by blast
qed

end
